theory Spec2Isabelle
  imports Complex_Main
begin

unbundle bit_operations_syntax

section \<open>Exceptions as values\<close>

text \<open>
  The exception classes of \<^verbatim>\<open>protocol.py\<close>, followed by the built-in Python 2.7 exceptions that
  the library calls of the module can raise (\<^verbatim>\<open>struct.error\<close>, \<^verbatim>\<open>socket.error\<close> and the
  interpreter's own).  A computation that may raise returns \<open>error + 'a\<close>, with \<open>Inl\<close> the
  exception.
\<close>

datatype error =
    HeaderTooShortError
  | InvalidMagicNumberError
  | PayloadTooShortError
  | InvalidPayloadChecksum
  | IncompatibleClientError
  | ReadError
  | RemoteHostClosedConnection
  | StructError
  | SocketError
  | TypeError
  | ValueError
  | KeyError
  | OverflowError
  | AttributeError

definition ebind :: "error + 'a \<Rightarrow> ('a \<Rightarrow> error + 'b) \<Rightarrow> error + 'b" where
  "ebind m f = (case m of Inl e \<Rightarrow> Inl e | Inr x \<Rightarrow> f x)"

section \<open>Byte strings, \<^verbatim>\<open>struct\<close> and \<^verbatim>\<open>StringIO\<close>\<close>

text \<open>
  A Python 2 \<^verbatim>\<open>str\<close> is a byte string: \<open>string\<close>, a list of 8-bit characters.  Python
  integers are unbounded: \<open>int\<close>.
\<close>

definition chr :: "int \<Rightarrow> error + string" where
  "chr i = (if 0 \<le> i \<and> i < 256 then Inr [char_of i] else Inl ValueError)"

definition le_bytes :: "nat \<Rightarrow> int \<Rightarrow> string" where
  "le_bytes n v = map (\<lambda>i. char_of (v div 256 ^ i)) [0..<n]"

definition le_int :: "string \<Rightarrow> int" where
  "le_int s = foldr (\<lambda>c acc. of_char c + 256 * acc) s 0"

definition pack_unsigned :: "nat \<Rightarrow> int \<Rightarrow> error + string" where
  "pack_unsigned n v = (if 0 \<le> v \<and> v < 256 ^ n then Inr (le_bytes n v) else Inl StructError)"

definition pack_signed :: "nat \<Rightarrow> int \<Rightarrow> error + string" where
  "pack_signed n v =
     (if - (256 ^ n div 2) \<le> v \<and> v < 256 ^ n div 2 then Inr (le_bytes n (v mod 256 ^ n))
      else Inl StructError)"

definition unpack_signed :: "nat \<Rightarrow> string \<Rightarrow> int" where
  "unpack_signed n s = (let v = le_int s in if v < 256 ^ n div 2 then v else v - 256 ^ n)"

text \<open>\<^verbatim>\<open>struct.pack(fmt, v)\<close> for the integer formats the module uses; a value out of the
  format's range raises \<^verbatim>\<open>struct.error\<close>.\<close>

definition struct_pack :: "string \<Rightarrow> int \<Rightarrow> error + string" where
  "struct_pack fmt v =
     (if fmt = ''<B'' then pack_unsigned 1 v
      else if fmt = ''<H'' then pack_unsigned 2 v
      else if fmt = ''>H'' then map_sum id rev (pack_unsigned 2 v)
      else if fmt = ''<I'' then pack_unsigned 4 v
      else if fmt = ''<Q'' then pack_unsigned 8 v
      else if fmt = ''<i'' then pack_signed 4 v
      else if fmt = ''<q'' then pack_signed 8 v
      else Inl StructError)"

definition calcsize :: "string \<Rightarrow> nat" where
  "calcsize fmt =
     (if fmt = ''<B'' \<or> fmt = ''<?'' then 1
      else if fmt = ''<H'' \<or> fmt = ''>H'' then 2
      else if fmt = ''<I'' \<or> fmt = ''<i'' then 4
      else if fmt = ''<Q'' \<or> fmt = ''<q'' then 8
      else 0)"

text \<open>\<^verbatim>\<open>struct.unpack(fmt, string)[0]\<close>: \<^verbatim>\<open>struct.error\<close> unless the string has exactly the
  format's size.\<close>

definition struct_unpack :: "string \<Rightarrow> string \<Rightarrow> error + int" where
  "struct_unpack fmt s =
     (if calcsize fmt = 0 \<or> length s \<noteq> calcsize fmt then Inl StructError
      else if fmt = ''>H'' then Inr (le_int (rev s))
      else if fmt = ''<i'' then Inr (unpack_signed 4 s)
      else if fmt = ''<q'' then Inr (unpack_signed 8 s)
      else Inr (le_int s))"

text \<open>The module's own \<^verbatim>\<open>unpack\<close>: \<^verbatim>\<open>struct.error\<close> becomes \<^verbatim>\<open>ReadError\<close>.\<close>

definition unpack :: "string \<Rightarrow> string \<Rightarrow> error + int" where
  "unpack fmt s = (case struct_unpack fmt s of Inl e \<Rightarrow> Inl ReadError | Inr v \<Rightarrow> Inr v)"

text \<open>\<^verbatim>\<open>StringIO.read(n)\<close> on a stream whose unread part is \<open>data\<close>: the bytes read (fewer
  than \<open>n\<close> at the end of the stream) and the stream after them.\<close>

definition read :: "nat \<Rightarrow> string \<Rightarrow> string \<times> string" where
  "read n data = (take n data, drop n data)"

section \<open>Variable-length integers\<close>

definition serialize_int :: "int \<Rightarrow> error + string" where
  "serialize_int len =
     (if len < 0xFD then chr len
      else if len \<le> 0xFFFF then ebind (struct_pack ''<H'' len) (\<lambda>b. Inr (CHR 0xFD # b))
      else if len \<le> 0xFFFFFFFF then ebind (struct_pack ''<I'' len) (\<lambda>b. Inr (CHR 0xFE # b))
      else ebind (struct_pack ''<Q'' len) (\<lambda>b. Inr (CHR 0xFF # b)))"

definition deserialize_int :: "string \<Rightarrow> error + (int \<times> string)" where
  "deserialize_int data =
     (case read 1 data of (b, data) \<Rightarrow>
      ebind (unpack ''<B'' b) (\<lambda>len.
        if len = 0xFD then
          (case read 2 data of (b, data) \<Rightarrow> ebind (unpack ''<H'' b) (\<lambda>len. Inr (len, data)))
        else if len = 0xFE then
          (case read 4 data of (b, data) \<Rightarrow> ebind (unpack ''<I'' b) (\<lambda>len. Inr (len, data)))
        else if len = 0xFF then
          (case read 8 data of (b, data) \<Rightarrow> ebind (unpack ''<Q'' b) (\<lambda>len. Inr (len, data)))
        else Inr (len, data)))"

section \<open>Theorems\<close>

text \<open>
  C3.  For each \<open>n\<close> of \<open>0, 0xFC, 0xFD, 0xFFFF, 0x10000, 0xFFFFFFFF, 0x100000000\<close>,
  \<open>serialize_int n\<close> succeeds with 1, 1, 3, 3, 5, 5, 9 bytes respectively (the value itself
  below \<open>0xFD\<close>; the tag \<open>0xFD\<close>, \<open>0xFE\<close>, \<open>0xFF\<close> followed by the value as 2, 4, 8
  little-endian bytes otherwise), and \<open>deserialize_int\<close> reads \<open>n\<close> back from exactly
  those bytes, leaving the stream empty.
\<close>

theorem varint_roundtrip_boundaries:
  "map (\<lambda>n. (serialize_int n,
              map_sum id length (serialize_int n),
              ebind (serialize_int n) deserialize_int))
     [0, 0xFC, 0xFD, 0xFFFF, 0x10000, 0xFFFFFFFF, 0x100000000] =
   [(Inr [CHR 0x00], Inr 1, Inr (0, [])),
    (Inr [CHR 0xFC], Inr 1, Inr (0xFC, [])),
    (Inr [CHR 0xFD, CHR 0xFD, CHR 0x00], Inr 3, Inr (0xFD, [])),
    (Inr [CHR 0xFD, CHR 0xFF, CHR 0xFF], Inr 3, Inr (0xFFFF, [])),
    (Inr [CHR 0xFE, CHR 0x00, CHR 0x00, CHR 0x01, CHR 0x00], Inr 5, Inr (0x10000, [])),
    (Inr [CHR 0xFE, CHR 0xFF, CHR 0xFF, CHR 0xFF, CHR 0xFF], Inr 5, Inr (0xFFFFFFFF, [])),
    (Inr [CHR 0xFF, CHR 0x00, CHR 0x00, CHR 0x00, CHR 0x00, CHR 0x01, CHR 0x00, CHR 0x00, CHR 0x00],
       Inr 9, Inr (0x100000000, []))]"
  by code_simp

end
